theory Spec2Isabelle
  imports Main
begin

section \<open>Data model\<close>

text \<open>
  Modelled from the spec: the declarations of the \<open>TaskStatus\<close> and \<open>TaskPriority\<close>
  enums are not among the sources; the members are the ones the service refers to
  (\<open>TaskStatus.PENDING\<close>, \<open>IN_PROGRESS\<close>, \<open>COMPLETED\<close>, \<open>TaskPriority.HIGH\<close>) and the
  ones section 3 of the spec lists.
\<close>

datatype TaskStatus = PENDING | IN_PROGRESS | COMPLETED

datatype TaskPriority = LOW | MEDIUM | HIGH

text \<open>
  Modelled from the spec: the string value of each enum member, as interpolated into a
  job id, written as section 3 of the spec writes the statuses.
\<close>

fun status_str :: "TaskStatus \<Rightarrow> string" where
  "status_str PENDING = ''pending''"
| "status_str IN_PROGRESS = ''in_progress''"
| "status_str COMPLETED = ''completed''"


text \<open>
  Modelled from the spec: the \<open>Task\<close> entity (\<open>entities/task.entity\<close>) is not among the
  sources. Its columns are the ones of section 3 of the spec; timestamps are
  milliseconds since the epoch. Field names carry the prefix \<open>t_\<close> (\<open>id\<close> is the identity
  function of HOL, and the DTOs below have fields of the same names).
\<close>

record Task =
  t_id :: string
  t_title :: string
  t_description :: "string option"
  t_status :: TaskStatus
  t_priority :: TaskPriority
  t_dueDate :: "int option"
  t_userId :: string
  t_createdAt :: int
  t_updatedAt :: int


record UpdateTaskDto =
  u_title :: "string option"
  u_description :: "string option"
  u_status :: "TaskStatus option"
  u_priority :: "TaskPriority option"
  u_dueDate :: "string option"
  u_userId :: "string option"

text \<open>
  The exceptions the services throw or pass on; \<open>QueryFailedError\<close> is what the
  repository throws for a statement the database rejects, \<open>Error\<close> the plain
  JavaScript error.
\<close>

datatype exn =
    NotFoundException string
  | BadRequestException string
  | QueryFailedError string
  | Error string

text \<open>
  What a call reads from its surroundings: the clock (\<open>new Date()\<close>, \<open>NOW()\<close>), the
  identifier the database generates for a new row, the parsing of a date string, the
  column defaults of the entity and the configured \<open>OVERDUE_TASK_TTL_HOURS\<close>.
\<close>

record Env =
  now :: int
  uuid :: string
  parseDate :: "string \<Rightarrow> int"
  defaultStatus :: TaskStatus
  defaultPriority :: TaskPriority
  overdueHours :: int

section \<open>The task store\<close>

text \<open>
  The relational store behind the TypeORM repository: the rows of the \<open>tasks\<close> table in
  the order a scan yields them, and the statements issued so far. The statement log is
  what makes "a query was issued" observable.
\<close>

datatype Stmt = SELECT | INSERT | UPDATE | DELETE

record Db =
  rows :: "Task list"
  issued :: "Stmt list"

definition log_stmt :: "Stmt \<Rightarrow> Db \<Rightarrow> Db" where
  "log_stmt s db = db\<lparr>issued := issued db @ [s]\<rparr>"

text \<open>\<open>repo.findOne({ where: { id } })\<close>\<close>

definition repo_findOne :: "string \<Rightarrow> Db \<Rightarrow> Task option \<times> Db" where
  "repo_findOne i db = (find (\<lambda>t. t_id t = i) (rows db), log_stmt SELECT db)"

text \<open>\<open>repo.find({ where: { id: In(ids) } })\<close>\<close>

definition repo_find_in :: "string list \<Rightarrow> Db \<Rightarrow> Task list \<times> Db" where
  "repo_find_in ids db = (filter (\<lambda>t. t_id t \<in> set ids) (rows db), log_stmt SELECT db)"

text \<open>
  \<open>repo.find({ where: { dueDate: LessThan(d), status: PENDING }, take, skip })\<close>: no
  \<open>order\<close> is given, so the rows come in the scan order of the table. A row without a
  due date does not satisfy \<open>LessThan\<close>.
\<close>

definition is_overdue :: "int \<Rightarrow> Task \<Rightarrow> bool" where
  "is_overdue d t = ((case t_dueDate t of None \<Rightarrow> False | Some due \<Rightarrow> due < d) \<and> t_status t = PENDING)"

definition repo_find_overdue :: "int \<Rightarrow> nat \<Rightarrow> nat \<Rightarrow> Db \<Rightarrow> Task list \<times> Db" where
  "repo_find_overdue d take_n skip_n db =
     (take take_n (drop skip_n (filter (is_overdue d) (rows db))), log_stmt SELECT db)"

text \<open>
  \<open>createQueryBuilder().update(Task).set(..).where(..).returning(..).execute()\<close>: one
  UPDATE statement; the result holds the changed rows (\<open>raw\<close>), and \<open>affected\<close> is their
  number. The new version of a row is written here in the place of the old one; where
  PostgreSQL puts it, and so the order of an unordered scan after an UPDATE, is not
  fixed, and no statement below is about the order of rows after a mutation.
\<close>

definition qb_update :: "(Task \<Rightarrow> bool) \<Rightarrow> (Task \<Rightarrow> Task) \<Rightarrow> Db \<Rightarrow> Task list \<times> Db" where
  "qb_update P f db =
     (map f (filter P (rows db)),
      log_stmt UPDATE (db\<lparr>rows := map (\<lambda>t. if P t then f t else t) (rows db)\<rparr>))"

text \<open>
  \<open>.where('id IN (:...ids)', { ids })\<close>: the array is spread into the statement. An
  empty array leaves \<open>id IN ()\<close>, which PostgreSQL rejects with a syntax error: the
  statement is sent, nothing is changed, and \<open>execute()\<close> throws a \<open>QueryFailedError\<close>.
\<close>

definition empty_in_list :: exn where
  "empty_in_list = QueryFailedError ''syntax error at or near )''"

text \<open>
  \<open>update(Task).set(..).where('id IN (:...ids)', ..).andWhere(..).returning(..).execute()\<close>
\<close>

definition qb_update_in ::
  "string list \<Rightarrow> (Task \<Rightarrow> bool) \<Rightarrow> (Task \<Rightarrow> Task) \<Rightarrow> Db \<Rightarrow> (exn + Task list) \<times> Db" where
  "qb_update_in ids P f db =
     (if ids = [] then (Inl empty_in_list, log_stmt UPDATE db)
      else (case qb_update (\<lambda>t. t_id t \<in> set ids \<and> P t) f db of (raw, db') \<Rightarrow> (Inr raw, db')))"

text \<open>
  \<open>delete().from(Task).where('id IN (:...ids)', ..).execute()\<close>: returns \<open>affected\<close>.
\<close>

definition qb_delete_in :: "string list \<Rightarrow> Db \<Rightarrow> (exn + nat) \<times> Db" where
  "qb_delete_in ids db =
     (if ids = [] then (Inl empty_in_list, log_stmt DELETE db)
      else (Inr (length (filter (\<lambda>t. t_id t \<in> set ids) (rows db))),
            log_stmt DELETE (db\<lparr>rows := filter (\<lambda>t. t_id t \<notin> set ids) (rows db)\<rparr>)))"

text \<open>
  \<open>repo.save\<close> of a new entity: one INSERT; the database fills in the id, the column
  defaults and both timestamps, and the saved entity is returned.
\<close>

definition repo_insert :: "Task \<Rightarrow> Db \<Rightarrow> Task \<times> Db" where
  "repo_insert t db = (t, log_stmt INSERT (db\<lparr>rows := rows db @ [t]\<rparr>))"

text \<open>
  \<open>repo.save\<close> of an entity that has an id: the row of that id is read again; when no
  column differs nothing is written, otherwise the row is rewritten (modelled from the
  spec: \<open>updatedAt\<close> is refreshed on every mutation); an id that is not in the table is
  inserted.
\<close>

definition repo_save :: "Env \<Rightarrow> Task \<Rightarrow> Db \<Rightarrow> Task \<times> Db" where
  "repo_save env t db =
     (let db1 = log_stmt SELECT db
      in case find (\<lambda>r. t_id r = t_id t) (rows db1) of
           None \<Rightarrow> repo_insert t db1
         | Some r \<Rightarrow>
             if r = t then (t, db1)
             else
               let t' = t\<lparr>t_updatedAt := now env\<rparr>
               in (t', log_stmt UPDATE
                         (db1\<lparr>rows := map (\<lambda>r. if t_id r = t_id t then t' else r) (rows db1)\<rparr>)))"

text \<open>
  \<open>dataSource.transaction(cb)\<close>: when the callback throws, the rows are as they were
  when the transaction began (the statements were issued all the same) and the error is
  thrown on. The queue and the logger are not resources of the transaction.
\<close>

definition transaction ::
  "(Db \<Rightarrow> 'q \<Rightarrow> (exn + 'a) \<times> Db \<times> 'q) \<Rightarrow> Db \<Rightarrow> 'q \<Rightarrow> (exn + 'a) \<times> Db \<times> 'q" where
  "transaction cb db q =
     (case cb db q of
        (Inl e, db', q') \<Rightarrow> (Inl e, db\<lparr>issued := issued db'\<rparr>, q')
      | (Inr v, db', q') \<Rightarrow> (Inr v, db', q'))"

section \<open>The job queue\<close>

text \<open>
  The payload of a job is untyped in the source (\<open>job.data as StatusUpdateJob\<close>): one
  record with every field optional. The status of a payload is written by the services
  from the enum, so it is typed by the enum here.
\<close>

record JobData =
  d_taskId :: "string option"
  d_status :: "TaskStatus option"
  d_notifyUsers :: "bool option"

definition no_data :: JobData where
  "no_data = \<lparr>d_taskId = None, d_status = None, d_notifyUsers = None\<rparr>"

record JobsOptions =
  o_jobId :: "string option"
  o_attempts :: "nat option"
  o_backoff :: "(string \<times> nat) option"
  o_removeOnComplete :: "bool option"
  o_removeOnFail :: "nat option"

definition no_opts :: JobsOptions where
  "no_opts = \<lparr>o_jobId = None, o_attempts = None, o_backoff = None,
              o_removeOnComplete = None, o_removeOnFail = None\<rparr>"

text \<open>The arguments of one \<open>taskQueue.add(name, data, opts)\<close>.\<close>

record JobReq =
  j_name :: string
  j_data :: JobData
  j_opts :: JobsOptions

text \<open>
  What a service holds besides the repository, as operations on an outside state of any
  type: the queue (\<open>taskQueue.add\<close>, \<open>taskQueue.addBulk\<close>), each call either resolving
  (\<open>None\<close>) or rejecting with an error (\<open>Some e\<close>), and the logger at the level the
  services use for a failed enqueue (\<open>logger.warn\<close>).
\<close>

record 'q Collaborators =
  add :: "JobReq \<Rightarrow> 'q \<Rightarrow> exn option \<times> 'q"
  addBulk :: "JobReq list \<Rightarrow> 'q \<Rightarrow> exn option \<times> 'q"
  warn :: "string \<Rightarrow> 'q \<Rightarrow> 'q"

text \<open>
  A queue that accepts every call; the outside state is the list of the calls made on
  the queue, in order.
\<close>

definition recording :: "(JobReq list) Collaborators" where
  "recording = \<lparr>add = (\<lambda>r q. (None, q @ [r])), addBulk = (\<lambda>rs q. (None, q @ rs)),
                warn = (\<lambda>line q. q)\<rparr>"


text \<open>
  Modelled from the spec: the queue itself is an external library. Section 4.2 of the
  spec gives its contract: a job is identified by its deduplication key, and enqueuing
  under a key that is already pending is a no-op. A call without a key gets a key of
  the queue's own, distinct from every other.
\<close>

datatype JobKey = Custom string | Auto nat

record Job =
  job_key :: JobKey
  job_name :: string
  job_data :: JobData
  attemptsMade :: nat

record Queue =
  pending :: "Job list"
  counter :: nat

definition queue_add :: "JobReq \<Rightarrow> Queue \<Rightarrow> exn option \<times> Queue" where
  "queue_add r q =
     (case o_jobId (j_opts r) of
        Some k \<Rightarrow>
          if Custom k \<in> set (map job_key (pending q)) then (None, q)
          else (None, q\<lparr>pending := pending q @
                  [\<lparr>job_key = Custom k, job_name = j_name r, job_data = j_data r, attemptsMade = 0\<rparr>]\<rparr>)
      | None \<Rightarrow>
          (None, q\<lparr>pending := pending q @
                  [\<lparr>job_key = Auto (counter q), job_name = j_name r, job_data = j_data r, attemptsMade = 0\<rparr>],
                  counter := Suc (counter q)\<rparr>))"

definition queue_addBulk :: "JobReq list \<Rightarrow> Queue \<Rightarrow> exn option \<times> Queue" where
  "queue_addBulk rs q = (None, fold (\<lambda>r q'. snd (queue_add r q')) rs q)"

definition job_queue :: "Queue Collaborators" where
  "job_queue = \<lparr>add = queue_add, addBulk = queue_addBulk, warn = (\<lambda>line q. q)\<rparr>"

definition empty_queue :: Queue where
  "empty_queue = \<lparr>pending = [], counter = 0\<rparr>"

section \<open>TasksService\<close>

subsection \<open>create\<close>

definition status_update_key :: "string \<Rightarrow> TaskStatus \<Rightarrow> string" where
  "status_update_key i s = ''task-status-update:'' @ i @ '':'' @ status_str s"

definition create_job :: "Task \<Rightarrow> JobReq" where
  "create_job saved =
     \<lparr>j_name = ''task-status-update'',
      j_data = no_data\<lparr>d_taskId := Some (t_id saved), d_status := Some (t_status saved)\<rparr>,
      j_opts = \<lparr>o_jobId = Some (status_update_key (t_id saved) (t_status saved)),
                o_attempts = Some 3,
                o_backoff = Some (''exponential'', 2000),
                o_removeOnComplete = Some True,
                o_removeOnFail = Some 50\<rparr>\<rparr>"



subsection \<open>update\<close>

text \<open>\<open>.set({ ...dto, updatedAt: () => 'NOW()' })\<close>: a field absent from the patch is not set.\<close>

definition apply_patch :: "Env \<Rightarrow> UpdateTaskDto \<Rightarrow> Task \<Rightarrow> Task" where
  "apply_patch env dto t =
     t\<lparr>t_title := (case u_title dto of None \<Rightarrow> t_title t | Some v \<Rightarrow> v),
       t_description := (case u_description dto of None \<Rightarrow> t_description t | Some v \<Rightarrow> Some v),
       t_status := (case u_status dto of None \<Rightarrow> t_status t | Some v \<Rightarrow> v),
       t_priority := (case u_priority dto of None \<Rightarrow> t_priority t | Some v \<Rightarrow> v),
       t_dueDate := (case u_dueDate dto of None \<Rightarrow> t_dueDate t | Some v \<Rightarrow> Some (parseDate env v)),
       t_userId := (case u_userId dto of None \<Rightarrow> t_userId t | Some v \<Rightarrow> v),
       t_updatedAt := now env\<rparr>"

definition update_job :: "Task \<Rightarrow> JobReq" where
  "update_job updated =
     \<lparr>j_name = ''task-status-update'',
      j_data = no_data\<lparr>d_taskId := Some (t_id updated), d_status := Some (t_status updated)\<rparr>,
      j_opts = no_opts\<rparr>"

text \<open>
  The transaction of \<open>update\<close>: the status before, one UPDATE returning the row, and the
  comparison. \<open>result.raw[0]\<close> is the first returned row; the row read a statement
  earlier in the same transaction is among them.
\<close>

definition update_tx :: "Env \<Rightarrow> string \<Rightarrow> UpdateTaskDto \<Rightarrow> Db \<Rightarrow> 'q \<Rightarrow> (exn + Task \<times> bool) \<times> Db \<times> 'q" where
  "update_tx env i dto db q =
     (case repo_findOne i db of
        (None, db1) \<Rightarrow> (Inl (NotFoundException ''Task not found''), db1, q)
      | (Some before, db1) \<Rightarrow>
          let (raw, db2) = qb_update (\<lambda>t. t_id t = i) (apply_patch env dto) db1;
              updated = hd raw;
              statusChanged = (u_status dto \<noteq> None \<and> u_status dto \<noteq> Some (t_status before))
          in (Inr (updated, statusChanged), db2, q))"

definition update ::
  "'q Collaborators \<Rightarrow> Env \<Rightarrow> string \<Rightarrow> UpdateTaskDto \<Rightarrow> Db \<Rightarrow> 'q \<Rightarrow> (exn + Task) \<times> Db \<times> 'q" where
  "update Q env i dto db q =
     (case transaction (update_tx env i dto) db q of
        (Inl e, db', q') \<Rightarrow> (Inl e, db', q')
      | (Inr (updated, statusChanged), db', q') \<Rightarrow>
          if statusChanged then
            \<comment> \<open>try { await this.taskQueue.add(..) } catch (e) { this.logger.warn(..) }\<close>
            (case add Q (update_job updated) q' of
               (None, q'') \<Rightarrow> (Inr updated, db', q'')
             | (Some e, q'') \<Rightarrow>
                 (Inr updated, db',
                  warn Q (''Failed to enqueue status update for task '' @ t_id updated) q''))
          else (Inr updated, db', q'))"

subsection \<open>findOverdueTasks and updateStatus\<close>

text \<open>\<open>findOverdueTasks(limit, offset)\<close>: the cutoff is the clock, not an argument.\<close>

definition findOverdueTasks :: "Env \<Rightarrow> nat \<Rightarrow> nat \<Rightarrow> Db \<Rightarrow> Task list \<times> Db" where
  "findOverdueTasks env limit offset db = repo_find_overdue (now env) limit offset db"

definition findOneOrFail :: "string \<Rightarrow> Db \<Rightarrow> (exn + Task) \<times> Db" where
  "findOneOrFail i db =
     (case repo_findOne i db of
        (None, db1) \<Rightarrow> (Inl (NotFoundException ''Task not found''), db1)
      | (Some task, db1) \<Rightarrow> (Inr task, db1))"

definition updateStatus :: "Env \<Rightarrow> string \<Rightarrow> TaskStatus \<Rightarrow> Db \<Rightarrow> (exn + Task) \<times> Db" where
  "updateStatus env i s db =
     (case findOneOrFail i db of
        (Inl e, db1) \<Rightarrow> (Inl e, db1)
      | (Inr task, db1) \<Rightarrow>
          (case repo_save env (task\<lparr>t_status := s\<rparr>) db1 of (t', db2) \<Rightarrow> (Inr t', db2)))"

subsection \<open>batchProcess\<close>

text \<open>
  \<open>BatchAction\<close> is a string enum; at run time the action is a string compared with
  \<open>===\<close>, so a value outside the enum reaches the last branch.
\<close>

definition BatchAction_COMPLETE :: string where
  "BatchAction_COMPLETE = ''complete''"

definition BatchAction_DELETE :: string where
  "BatchAction_DELETE = ''delete''"

record BatchProcessDto =
  tasks :: "string list"
  action :: string

text \<open>
  The \<open>@Transform\<close> of the DTO, \<open>Array.from(new Set(value))\<close>: a JavaScript \<open>Set\<close> keeps
  the first occurrence of each value, in insertion order.
\<close>

fun dedupe_acc :: "string list \<Rightarrow> string list \<Rightarrow> string list" where
  "dedupe_acc seen [] = []"
| "dedupe_acc seen (x # xs) =
     (if x \<in> set seen then dedupe_acc seen xs else x # dedupe_acc (seen @ [x]) xs)"

definition dedupe :: "string list \<Rightarrow> string list" where
  "dedupe xs = dedupe_acc [] xs"

datatype Outcome = updated | deleted | noop

datatype BatchItemResult = Success string Outcome | Failure string string

fun item_taskId :: "BatchItemResult \<Rightarrow> string" where
  "item_taskId (Success i r) = i"
| "item_taskId (Failure i e) = i"

record BatchProcessResult =
  r_action :: string
  requested :: nat
  affected :: nat
  notFound :: nat
  results :: "BatchItemResult list"

definition complete_job :: "string \<Rightarrow> JobReq" where
  "complete_job i =
     \<lparr>j_name = ''task-status-update'',
      j_data = no_data\<lparr>d_taskId := Some i, d_status := Some COMPLETED\<rparr>,
      j_opts = no_opts\<rparr>"

text \<open>
  The callback of the transaction. \<open>Array.from(existingIds)\<close> holds the ids found, each
  once. Neither \<open>execute()\<close> is inside a \<open>try\<close>, so a \<open>QueryFailedError\<close> leaves the
  callback. The \<open>catch\<close> around \<open>addBulk\<close> is empty: nothing is logged.
\<close>

definition batch_tx ::
  "'q Collaborators \<Rightarrow> Env \<Rightarrow> string list \<Rightarrow> string \<Rightarrow> Db \<Rightarrow> 'q \<Rightarrow> (exn + BatchProcessResult) \<times> Db \<times> 'q" where
  "batch_tx Q env ids act db q =
     (let (existing, db1) = repo_find_in ids db;
          existingIds = set (map t_id existing);
          notFoundIds = filter (\<lambda>i. i \<notin> existingIds) ids
      in
        if act = BatchAction_COMPLETE then
          (case qb_update_in (dedupe (map t_id existing)) (\<lambda>t. t_status t \<noteq> COMPLETED)
                  (\<lambda>t. t\<lparr>t_status := COMPLETED, t_updatedAt := now env\<rparr>) db1 of
             (Inl e, db2) \<Rightarrow> (Inl e, db2, q)
           | (Inr raw, db2) \<Rightarrow>
               let affected = length raw;
                   updatedIds = map t_id raw;
                   updatedSet = set updatedIds;
                   perItem = map (\<lambda>i. if i \<notin> existingIds then Failure i ''not_found''
                                       else if i \<in> updatedSet then Success i updated
                                       else Success i noop) ids;
                   \<comment> \<open>try { await this.taskQueue.addBulk(..) } catch { }\<close>
                   q1 = (if length updatedIds \<noteq> 0 then
                           (case addBulk Q (map complete_job updatedIds) q of
                              (None, q') \<Rightarrow> q'
                            | (Some e, q') \<Rightarrow> q')
                         else q)
               in (Inr \<lparr>r_action = act, requested = length ids, affected = affected,
                        notFound = length notFoundIds, results = perItem\<rparr>, db2, q1))
        else if act = BatchAction_DELETE then
          (case qb_delete_in (dedupe (map t_id existing)) db1 of
             (Inl e, db2) \<Rightarrow> (Inl e, db2, q)
           | (Inr n, db2) \<Rightarrow>
               let affected = n;
                   perItem = map (\<lambda>i. if i \<notin> existingIds then Failure i ''not_found''
                                       else Success i deleted) ids
               in (Inr \<lparr>r_action = act, requested = length ids, affected = affected,
                        notFound = length notFoundIds, results = perItem\<rparr>, db2, q))
        else (Inl (BadRequestException (''Unknown action: '' @ act)), db1, q))"

definition batchProcess ::
  "'q Collaborators \<Rightarrow> Env \<Rightarrow> BatchProcessDto \<Rightarrow> Db \<Rightarrow> 'q \<Rightarrow> (exn + BatchProcessResult) \<times> Db \<times> 'q" where
  "batchProcess Q env dto db q =
     (if length (tasks dto) = 0 then (Inl (BadRequestException ''No task IDs provided''), db, q)
      else transaction (batch_tx Q env (tasks dto) (action dto)) db q)"

section \<open>OverdueTasksService\<close>

definition batchSize :: nat where
  "batchSize = 500"

definition overdue_job :: "Task \<Rightarrow> JobReq" where
  "overdue_job task =
     \<lparr>j_name = ''process-overdue-task'',
      j_data = no_data\<lparr>d_taskId := Some (t_id task)\<rparr>,
      j_opts = no_opts\<lparr>o_jobId := Some (''overdue-'' @ t_id task)\<rparr>\<rparr>"

text \<open>
  \<open>for (const task of overdueTasks) await this.taskQueue.add(..)\<close>: a rejection leaves
  the loop (and the scan) at once.
\<close>

fun enqueue_overdue :: "'q Collaborators \<Rightarrow> Task list \<Rightarrow> 'q \<Rightarrow> exn option \<times> 'q" where
  "enqueue_overdue Q [] q = (None, q)"
| "enqueue_overdue Q (task # rest) q =
     (case add Q (overdue_job task) q of
        (Some e, q') \<Rightarrow> (Some e, q')
      | (None, q') \<Rightarrow> enqueue_overdue Q rest q')"

text \<open>
  What a run leaves behind: the local variables \<open>page\<close> (one more after every page
  query) and \<open>totalProcessed\<close>, and the error the outer \<open>catch\<close> logged, if any.
\<close>

record ScanResult =
  pages :: nat
  totalProcessed :: nat
  caught :: "exn option"

function scan_loop ::
  "'q Collaborators \<Rightarrow> int \<Rightarrow> nat \<Rightarrow> nat \<Rightarrow> Db \<Rightarrow> 'q \<Rightarrow> ScanResult \<times> Db \<times> 'q" where
  "scan_loop Q dueBefore page tot db q =
     (let overdueTasks = fst (repo_find_overdue dueBefore batchSize (page * batchSize) db);
          db1 = snd (repo_find_overdue dueBefore batchSize (page * batchSize) db);
          hasMore = (length overdueTasks = batchSize);
          page1 = page + 1
      in
        if length overdueTasks = 0 \<and> page1 = 1
        then (\<lparr>pages = page1, totalProcessed = tot, caught = None\<rparr>, db1, q)
        else
          (case enqueue_overdue Q overdueTasks q of
             (Some e, q1) \<Rightarrow> (\<lparr>pages = page1, totalProcessed = tot, caught = Some e\<rparr>, db1, q1)
           | (None, q1) \<Rightarrow>
               if hasMore then scan_loop Q dueBefore page1 (tot + length overdueTasks) db1 q1
               else (\<lparr>pages = page1, totalProcessed = tot + length overdueTasks, caught = None\<rparr>,
                     db1, q1)))"
  by pat_completeness auto
termination
proof (relation "measure (\<lambda>(Q, d, page, tot, db, q). length (filter (is_overdue d) (rows db)) - page * batchSize)")
  show "wf (measure (\<lambda>(Q, d, page, tot, db, q). length (filter (is_overdue d) (rows db)) - page * batchSize))"
    by simp
next
  fix Q :: "'q Collaborators" and dueBefore :: int and page tot :: nat and db :: Db and q :: 'q
    and overdueTasks db1 hasMore page1 x1 q1
  assume ot: "overdueTasks = fst (repo_find_overdue dueBefore batchSize (page * batchSize) db)"
    and d1: "db1 = snd (repo_find_overdue dueBefore batchSize (page * batchSize) db)"
    and hm: "hasMore = (length overdueTasks = batchSize)"
    and p1: "page1 = page + 1"
    and more: "hasMore"
  have full: "length (take batchSize (drop (page * batchSize) (filter (is_overdue dueBefore) (rows db)))) = batchSize"
    using ot hm more by (simp add: repo_find_overdue_def)
  have pos: "0 < batchSize" by (simp add: batchSize_def)
  have "batchSize \<le> length (filter (is_overdue dueBefore) (rows db)) - page * batchSize"
    using full by simp
  then have "length (filter (is_overdue dueBefore) (rows db)) - (page + 1) * batchSize
        < length (filter (is_overdue dueBefore) (rows db)) - page * batchSize"
    using pos by simp
  moreover have "rows db1 = rows db"
    using d1 by (simp add: repo_find_overdue_def log_stmt_def)
  ultimately show "((Q, dueBefore, page1, tot + length overdueTasks, db1, q1), (Q, dueBefore, page, tot, db, q))
        \<in> measure (\<lambda>(Q, d, page, tot, db, q). length (filter (is_overdue d) (rows db)) - page * batchSize)"
    using p1 by simp
qed

definition checkOverdueTasks :: "'q Collaborators \<Rightarrow> Env \<Rightarrow> Db \<Rightarrow> 'q \<Rightarrow> ScanResult \<times> Db \<times> 'q" where
  "checkOverdueTasks Q env db q =
     (let dueBefore = now env - overdueHours env * 60 * 60 * 1000
      in scan_loop Q dueBefore 0 0 db q)"

section \<open>TaskProcessorService\<close>

datatype JobResult =
    StatusUpdated string TaskStatus
  | MissingData
  | OverdueProcessed nat

definition handleStatusUpdate :: "Env \<Rightarrow> JobData \<Rightarrow> Db \<Rightarrow> (exn + JobResult) \<times> Db" where
  "handleStatusUpdate env dat db =
     (case (d_taskId dat, d_status dat) of
        (Some i, Some s) \<Rightarrow>
          if i = [] then (Inr MissingData, db)
          else (case updateStatus env i s db of
                  (Inl e, db1) \<Rightarrow> (Inl e, db1)
                | (Inr task, db1) \<Rightarrow> (Inr (StatusUpdated (t_id task) (t_status task)), db1))
      | _ \<Rightarrow> (Inr MissingData, db))"

text \<open>
  The paging loop of \<open>handleOverdueTasks\<close> (batch size 100): it ends at the first empty
  page. \<open>notifyUser\<close> only writes a log line.
\<close>

function overdue_pages :: "Env \<Rightarrow> nat \<Rightarrow> nat \<Rightarrow> Db \<Rightarrow> nat \<times> Db" where
  "overdue_pages env offset tot db =
     (let overdueTasks = fst (findOverdueTasks env 100 offset db);
          db1 = snd (findOverdueTasks env 100 offset db)
      in if length overdueTasks = 0 then (tot, db1)
         else overdue_pages env (offset + 100) (tot + length overdueTasks) db1)"
  by pat_completeness auto
termination
proof (relation "measure (\<lambda>(env, offset, tot, db). length (filter (is_overdue (now env)) (rows db)) - offset)")
  show "wf (measure (\<lambda>(env, offset, tot, db). length (filter (is_overdue (now env)) (rows db)) - offset))"
    by simp
next
  fix env :: Env and offset tot :: nat and db :: Db and overdueTasks db1
  assume ot: "overdueTasks = fst (findOverdueTasks env 100 offset db)"
    and d1: "db1 = snd (findOverdueTasks env 100 offset db)"
    and ne: "length overdueTasks \<noteq> 0"
  have "offset < length (filter (is_overdue (now env)) (rows db))"
    using ot ne by (simp add: findOverdueTasks_def repo_find_overdue_def)
  moreover have "rows db1 = rows db"
    using d1 by (simp add: findOverdueTasks_def repo_find_overdue_def log_stmt_def)
  ultimately show "((env, offset + 100, tot + length overdueTasks, db1), (env, offset, tot, db))
        \<in> measure (\<lambda>(env, offset, tot, db). length (filter (is_overdue (now env)) (rows db)) - offset)"
    by simp
qed

definition handleOverdueTasks :: "Env \<Rightarrow> JobData \<Rightarrow> Db \<Rightarrow> (exn + JobResult) \<times> Db" where
  "handleOverdueTasks env dat db =
     (case overdue_pages env 0 0 db of (tot, db1) \<Rightarrow> (Inr (OverdueProcessed tot), db1))"

text \<open>
  \<open>process\<close>: the dispatch on \<open>job.name\<close>. The \<open>catch\<close> logs, counts the failure and
  throws the same error on, so a thrown error is the result.
\<close>

definition process :: "Env \<Rightarrow> Job \<Rightarrow> Db \<Rightarrow> (exn + JobResult) \<times> Db" where
  "process env job db =
     (if job_name job = ''task-status-update'' then handleStatusUpdate env (job_data job) db
      else if job_name job = ''overdue-tasks-notification'' then handleOverdueTasks env (job_data job) db
      else (Inl (Error (''Unknown job type: '' @ job_name job)), db))"

section \<open>Concrete inputs\<close>

definition env0 :: Env where
  "env0 = \<lparr>now = 5, uuid = ''N'', parseDate = (\<lambda>s. 0), defaultStatus = PENDING,
           defaultPriority = MEDIUM, overdueHours = 0\<rparr>"

definition mk_task :: "string \<Rightarrow> TaskStatus \<Rightarrow> int option \<Rightarrow> Task" where
  "mk_task i s due =
     \<lparr>t_id = i, t_title = ''title'', t_description = None, t_status = s, t_priority = MEDIUM,
      t_dueDate = due, t_userId = ''u1'', t_createdAt = 0, t_updatedAt = 0\<rparr>"

definition db_of :: "Task list \<Rightarrow> Db" where
  "db_of ts = \<lparr>rows = ts, issued = []\<rparr>"

definition no_patch :: UpdateTaskDto where
  "no_patch = \<lparr>u_title = None, u_description = None, u_status = None, u_priority = None,
               u_dueDate = None, u_userId = None\<rparr>"



text \<open>
  Three updates of one task in a row on the modelled queue: to completed, back to
  pending, and to completed again.
\<close>

definition toggle1 :: "(exn + Task) \<times> Db \<times> Queue" where
  "toggle1 = update job_queue env0 ''A'' (no_patch\<lparr>u_status := Some COMPLETED\<rparr>)
               (db_of [mk_task ''A'' PENDING None]) empty_queue"

definition toggle2 :: "(exn + Task) \<times> Db \<times> Queue" where
  "toggle2 = update job_queue env0 ''A'' (no_patch\<lparr>u_status := Some PENDING\<rparr>)
               (fst (snd toggle1)) (snd (snd toggle1))"

definition toggle3 :: "(exn + Task) \<times> Db \<times> Queue" where
  "toggle3 = update job_queue env0 ''A'' (no_patch\<lparr>u_status := Some COMPLETED\<rparr>)
               (fst (snd toggle2)) (snd (snd toggle2))"

definition status_job :: "JobKey \<Rightarrow> string \<Rightarrow> TaskStatus \<Rightarrow> Job" where
  "status_job k i s = \<lparr>job_key = k, job_name = ''task-status-update'',
       job_data = \<lparr>d_taskId = Some i, d_status = Some s, d_notifyUsers = None\<rparr>, attemptsMade = 0\<rparr>"

section \<open>What the store operations compute\<close>

lemma rows_log_stmt [simp]: "rows (log_stmt s db) = rows db"
  by (simp add: log_stmt_def)

lemma issued_log_stmt [simp]: "issued (log_stmt s db) = issued db @ [s]"
  by (simp add: log_stmt_def)

lemma find_Some_holds: "find P xs = Some x \<Longrightarrow> P x \<and> x \<in> set xs"
  by (induction xs) (auto split: if_splits)

lemma find_map_upd:
  "(\<And>t. P t \<Longrightarrow> P (f t)) \<Longrightarrow> find P (map (\<lambda>t. if P t then f t else t) xs) = map_option f (find P xs)"
  by (induction xs) auto

lemma apply_patch_id [simp]: "t_id (apply_patch env dto t) = t_id t"
  by (simp add: apply_patch_def)

lemma find_hd_map_filter: "find P xs = Some x \<Longrightarrow> hd (map f (filter P xs)) = f x"
  by (induction xs) (auto split: if_splits)

lemma update_tx_found:
  assumes "find (\<lambda>t. t_id t = i) (rows db) = Some before"
  shows "update_tx env i dto db q =
     (Inr (apply_patch env dto before, u_status dto \<noteq> None \<and> u_status dto \<noteq> Some (t_status before)),
      log_stmt UPDATE ((log_stmt SELECT db)\<lparr>rows := map (\<lambda>t. if t_id t = i then apply_patch env dto t else t) (rows db)\<rparr>), q)"
proof -
  have rd: "repo_findOne i db = (Some before, log_stmt SELECT db)"
    using assms by (simp add: repo_findOne_def)
  have rw: "rows (log_stmt SELECT db) = rows db"
    by (simp add: log_stmt_def)
  have h: "hd (map (apply_patch env dto) (filter (\<lambda>t. t_id t = i) (rows db))) = apply_patch env dto before"
    using assms by (rule find_hd_map_filter)
  show ?thesis
    unfolding update_tx_def rd qb_update_def
    by (simp only: prod.case option.case Let_def rw h)
qed

lemma update_found:
  assumes "find (\<lambda>t. t_id t = i) (rows db) = Some before"
  shows "update Q env i dto db q =
     (Inr (apply_patch env dto before),
      log_stmt UPDATE ((log_stmt SELECT db)\<lparr>rows := map (\<lambda>t. if t_id t = i then apply_patch env dto t else t) (rows db)\<rparr>),
      if u_status dto \<noteq> None \<and> u_status dto \<noteq> Some (t_status before)
      then (case add Q (update_job (apply_patch env dto before)) q of
              (None, q') \<Rightarrow> q'
            | (Some e, q') \<Rightarrow> warn Q (''Failed to enqueue status update for task '' @ t_id before) q')
      else q)"
proof (cases "add Q (update_job (apply_patch env dto before)) q")
  case (Pair r q'')
  then show ?thesis
    by (cases r) (simp_all add: update_def transaction_def update_tx_found[OF assms])
qed




lemma transaction_fst: "fst (transaction cb db q) = fst (cb db q)"
  by (cases "cb db q" rule: prod_cases3) (simp add: transaction_def split: sum.splits)






section \<open>What batchProcess computes\<close>

lemma dedupe_acc_set: "set (dedupe_acc seen xs) = set xs - set seen"
  by (induction seen xs rule: dedupe_acc.induct) auto

lemma dedupe_acc_distinct: "distinct (dedupe_acc seen xs)"
  by (induction seen xs rule: dedupe_acc.induct) (auto simp: dedupe_acc_set)

lemma dedupe_set: "set (dedupe xs) = set xs"
  by (simp add: dedupe_def dedupe_acc_set)

lemma dedupe_distinct: "distinct (dedupe xs)"
  by (simp add: dedupe_def dedupe_acc_distinct)

lemma dedupe_length: "length (dedupe xs) = card (set xs)"
  using distinct_card [OF dedupe_distinct, of xs] by (simp add: dedupe_set)

lemma dedupe_Nil: "(dedupe xs = []) = (xs = [])"
  using dedupe_set [of xs] by (metis set_empty)

lemma found_ids_Nil:
  "(dedupe (map t_id (filter (\<lambda>t. t_id t \<in> set ids) (rows db))) = []) =
     (\<forall>t\<in>set (rows db). t_id t \<notin> set ids)"
  by (simp add: dedupe_Nil filter_empty_conv)


lemma batchProcess_fst:
  "ids \<noteq> [] \<Longrightarrow> fst (batchProcess Q env \<lparr>tasks = ids, action = act\<rparr> db q) = fst (batch_tx Q env ids act db q)"
  by (simp add: batchProcess_def transaction_fst)

lemma batchProcess_empty:
  "fst (batchProcess Q env \<lparr>tasks = [], action = act\<rparr> db q) = Inl (BadRequestException ''No task IDs provided'')"
  by (simp add: batchProcess_def)

lemma batch_tx_complete_fst:
  assumes "\<exists>t\<in>set (rows db). t_id t \<in> set ids"
  shows "fst (batch_tx Q env ids BatchAction_COMPLETE db q) =
     Inr \<lparr>r_action = BatchAction_COMPLETE, requested = length ids,
          affected = length (filter (\<lambda>t. t_id t \<in> t_id ` {t \<in> set (rows db). t_id t \<in> set ids} \<and> t_status t \<noteq> COMPLETED) (rows db)),
          notFound = length (filter (\<lambda>i. i \<notin> t_id ` {t \<in> set (rows db). t_id t \<in> set ids}) ids),
          results = map (\<lambda>i. if i \<notin> t_id ` {t \<in> set (rows db). t_id t \<in> set ids} then Failure i ''not_found''
                              else if i \<in> t_id ` {t \<in> set (rows db). t_id t \<in> t_id ` {t \<in> set (rows db). t_id t \<in> set ids} \<and> t_status t \<noteq> COMPLETED}
                              then Success i updated else Success i noop) ids\<rparr>"
proof -
  have ne: "dedupe (map t_id (filter (\<lambda>t. t_id t \<in> set ids) (rows db))) \<noteq> []"
    using assms by (simp add: found_ids_Nil)
  show ?thesis
    by (simp add: batch_tx_def repo_find_in_def qb_update_in_def qb_update_def Let_def comp_def ne dedupe_set)
qed

lemma batch_tx_delete_fst:
  assumes "\<exists>t\<in>set (rows db). t_id t \<in> set ids"
  shows "fst (batch_tx Q env ids BatchAction_DELETE db q) =
     Inr \<lparr>r_action = BatchAction_DELETE, requested = length ids,
          affected = length (filter (\<lambda>t. t_id t \<in> t_id ` {t \<in> set (rows db). t_id t \<in> set ids}) (rows db)),
          notFound = length (filter (\<lambda>i. i \<notin> t_id ` {t \<in> set (rows db). t_id t \<in> set ids}) ids),
          results = map (\<lambda>i. if i \<notin> t_id ` {t \<in> set (rows db). t_id t \<in> set ids} then Failure i ''not_found''
                              else Success i deleted) ids\<rparr>"
proof -
  have ne: "dedupe (map t_id (filter (\<lambda>t. t_id t \<in> set ids) (rows db))) \<noteq> []"
    using assms by (simp add: found_ids_Nil)
  show ?thesis
    by (simp add: batch_tx_def repo_find_in_def qb_delete_in_def Let_def comp_def ne dedupe_set
        BatchAction_DELETE_def BatchAction_COMPLETE_def)
qed

lemma batch_tx_none_found:
  assumes "\<forall>t\<in>set (rows db). t_id t \<notin> set ids"
  shows "batch_tx Q env ids BatchAction_COMPLETE db q =
           (Inl empty_in_list, log_stmt UPDATE (log_stmt SELECT db), q)"
    and "batch_tx Q env ids BatchAction_DELETE db q =
           (Inl empty_in_list, log_stmt DELETE (log_stmt SELECT db), q)"
proof -
  have e: "dedupe (map t_id (filter (\<lambda>t. t_id t \<in> set ids) (rows db))) = []"
    using assms by (simp only: found_ids_Nil)
  show "batch_tx Q env ids BatchAction_COMPLETE db q =
           (Inl empty_in_list, log_stmt UPDATE (log_stmt SELECT db), q)"
    by (simp add: batch_tx_def repo_find_in_def qb_update_in_def Let_def e)
  show "batch_tx Q env ids BatchAction_DELETE db q =
           (Inl empty_in_list, log_stmt DELETE (log_stmt SELECT db), q)"
    by (simp add: batch_tx_def repo_find_in_def qb_delete_in_def Let_def e
        BatchAction_DELETE_def BatchAction_COMPLETE_def)
qed




section \<open>Queue failures do not reach the caller\<close>




section \<open>update: enqueue on status change, and the frame\<close>

lemma find_Some_id: "find (\<lambda>t. t_id t = i) xs = Some x \<Longrightarrow> t_id x = i"
  using find_Some_holds [of "\<lambda>t. t_id t = i" xs x] by simp

lemma rows_after_update:
  assumes "find (\<lambda>t. t_id t = i) (rows db) = Some before"
  shows "rows (fst (snd (update Q env i dto db q))) =
           map (\<lambda>t. if t_id t = i then apply_patch env dto t else t) (rows db)"
  by (simp add: update_found[OF assms] log_stmt_def)

lemma find_after_update:
  assumes "find (\<lambda>t. t_id t = i) (rows db) = Some before"
  shows "find (\<lambda>t. t_id t = i) (rows (fst (snd (update Q env i dto db q)))) = Some (apply_patch env dto before)"
proof -
  have "find (\<lambda>t. t_id t = i) (map (\<lambda>t. if t_id t = i then apply_patch env dto t else t) (rows db))
      = map_option (apply_patch env dto) (find (\<lambda>t. t_id t = i) (rows db))"
    by (rule find_map_upd) simp
  then show ?thesis
    by (simp add: rows_after_update[OF assms] assms)
qed

lemma others_untouched:
  "(\<And>t. t_id (f t) = t_id t) \<Longrightarrow>
   filter (\<lambda>t. t_id t \<noteq> i) (map (\<lambda>t. if t_id t = i then f t else t) xs) = filter (\<lambda>t. t_id t \<noteq> i) xs"
  by (induction xs) auto

text \<open>
  C4. \<open>update\<close> of an existing task, run on the queue that records every \<open>add\<close> call:
  one \<open>task-status-update\<close> call is made when the patch holds a status different from
  the status read before the UPDATE, and none otherwise. In particular, once an update
  has set the status to \<open>s\<close>, a further update to \<open>s\<close> makes no call.
\<close>

theorem update_enqueues_iff_status_changed:
  assumes "find (\<lambda>t. t_id t = i) (rows db) = Some before"
  shows "snd (snd (update recording env i dto db calls)) =
           (if u_status dto \<noteq> None \<and> u_status dto \<noteq> Some (t_status before)
            then calls @ [\<lparr>j_name = ''task-status-update'',
                            j_data = \<lparr>d_taskId = Some i, d_status = u_status dto, d_notifyUsers = None\<rparr>,
                            j_opts = no_opts\<rparr>]
            else calls)
       \<and> snd (snd (update recording env i (dto2\<lparr>u_status := Some s\<rparr>)
                     (fst (snd (update recording env i (dto\<lparr>u_status := Some s\<rparr>) db calls))) calls2)) = calls2"
proof
  have "t_id before = i"
    using assms by (rule find_Some_id)
  then show "snd (snd (update recording env i dto db calls)) =
           (if u_status dto \<noteq> None \<and> u_status dto \<noteq> Some (t_status before)
            then calls @ [\<lparr>j_name = ''task-status-update'',
                            j_data = \<lparr>d_taskId = Some i, d_status = u_status dto, d_notifyUsers = None\<rparr>,
                            j_opts = no_opts\<rparr>]
            else calls)"
    by (auto simp add: update_found[OF assms] recording_def update_job_def no_data_def apply_patch_def)
next
  let ?db1 = "fst (snd (update recording env i (dto\<lparr>u_status := Some s\<rparr>) db calls))"
  have f: "find (\<lambda>t. t_id t = i) (rows ?db1) = Some (apply_patch env (dto\<lparr>u_status := Some s\<rparr>) before)"
    using assms by (rule find_after_update)
  have "t_status (apply_patch env (dto\<lparr>u_status := Some s\<rparr>) before) = s"
    by (simp add: apply_patch_def)
  then show "snd (snd (update recording env i (dto2\<lparr>u_status := Some s\<rparr>) ?db1 calls2)) = calls2"
    by (simp add: update_found[OF f])
qed

theorem update_enqueues_iff_status_changed_witness:
  "find (\<lambda>t. t_id t = ''A'') (rows (db_of [mk_task ''A'' PENDING None])) = Some (mk_task ''A'' PENDING None)
   \<and> snd (snd (update recording env0 ''A'' (no_patch\<lparr>u_status := Some COMPLETED\<rparr>)
                  (db_of [mk_task ''A'' PENDING None]) [])) =
       [\<lparr>j_name = ''task-status-update'',
         j_data = \<lparr>d_taskId = Some ''A'', d_status = Some COMPLETED, d_notifyUsers = None\<rparr>,
         j_opts = no_opts\<rparr>]"
proof -
  have h: "find (\<lambda>t. t_id t = ''A'') (rows (db_of [mk_task ''A'' PENDING None])) = Some (mk_task ''A'' PENDING None)"
    by (simp add: db_of_def mk_task_def)
  show ?thesis
    using h update_enqueues_iff_status_changed [OF h, of env0 "no_patch\<lparr>u_status := Some COMPLETED\<rparr>" "[]"]
    by (simp add: mk_task_def no_patch_def)
qed

text \<open>
  C10. \<open>update\<close> of an existing task returns the row as stored; its id and creation
  time are those before the update, \<open>updatedAt\<close> is the clock, every field absent from
  the patch keeps its value, and the rows of other ids are as they were.
\<close>

theorem update_frame:
  assumes "find (\<lambda>t. t_id t = i) (rows db) = Some before"
  shows "\<exists>t'. fst (update Q env i dto db q) = Inr t'
     \<and> find (\<lambda>t. t_id t = i) (rows (fst (snd (update Q env i dto db q)))) = Some t'
     \<and> filter (\<lambda>t. t_id t \<noteq> i) (rows (fst (snd (update Q env i dto db q)))) = filter (\<lambda>t. t_id t \<noteq> i) (rows db)
     \<and> t_id t' = t_id before
     \<and> t_createdAt t' = t_createdAt before
     \<and> t_updatedAt t' = now env
     \<and> (u_title dto = None \<longrightarrow> t_title t' = t_title before)
     \<and> (u_description dto = None \<longrightarrow> t_description t' = t_description before)
     \<and> (u_status dto = None \<longrightarrow> t_status t' = t_status before)
     \<and> (u_priority dto = None \<longrightarrow> t_priority t' = t_priority before)
     \<and> (u_dueDate dto = None \<longrightarrow> t_dueDate t' = t_dueDate before)
     \<and> (u_userId dto = None \<longrightarrow> t_userId t' = t_userId before)"
proof -
  have r: "fst (update Q env i dto db q) = Inr (apply_patch env dto before)"
    by (simp add: update_found[OF assms])
  have f: "find (\<lambda>t. t_id t = i) (rows (fst (snd (update Q env i dto db q)))) = Some (apply_patch env dto before)"
    using assms by (rule find_after_update)
  have o: "filter (\<lambda>t. t_id t \<noteq> i) (map (\<lambda>t. if t_id t = i then apply_patch env dto t else t) (rows db))
      = filter (\<lambda>t. t_id t \<noteq> i) (rows db)"
    by (rule others_untouched) simp
  show ?thesis
    using r f o by (simp add: rows_after_update[OF assms] apply_patch_def)
qed

theorem update_frame_witness:
  "find (\<lambda>t. t_id t = ''A'') (rows (db_of [mk_task ''A'' PENDING None])) = Some (mk_task ''A'' PENDING None)
   \<and> (\<exists>t'. fst (update recording env0 ''A'' (no_patch\<lparr>u_status := Some COMPLETED\<rparr>)
                  (db_of [mk_task ''A'' PENDING None]) []) = Inr t'
          \<and> t_id t' = ''A'' \<and> t_title t' = ''title'' \<and> t_updatedAt t' = 5)"
proof -
  have h: "find (\<lambda>t. t_id t = ''A'') (rows (db_of [mk_task ''A'' PENDING None])) = Some (mk_task ''A'' PENDING None)"
    by (simp add: db_of_def mk_task_def)
  have n: "u_title (no_patch\<lparr>u_status := Some COMPLETED\<rparr>) = None"
    by (simp add: no_patch_def)
  from update_frame [OF h, of recording env0 "no_patch\<lparr>u_status := Some COMPLETED\<rparr>" "[]"] n
  obtain t' where r: "fst (update recording env0 ''A'' (no_patch\<lparr>u_status := Some COMPLETED\<rparr>)
                  (db_of [mk_task ''A'' PENDING None]) []) = Inr t'"
    and i: "t_id t' = t_id (mk_task ''A'' PENDING None)"
    and u: "t_updatedAt t' = now env0"
    and t: "t_title t' = t_title (mk_task ''A'' PENDING None)"
    by blast
  have "t_id t' = ''A''" using i by (simp add: mk_task_def)
  moreover have "t_updatedAt t' = 5" using u by (simp add: env0_def)
  moreover have "t_title t' = ''title''" using t by (simp add: mk_task_def)
  ultimately show ?thesis
    using h r by blast
qed

section \<open>batchProcess: an action outside the enum\<close>

text \<open>
  C8, as amended. An action that is neither \<open>complete\<close> nor \<open>delete\<close> makes
  \<open>batchProcess\<close> fail with a \<open>BadRequestException\<close>, with no row and no queue state
  changed. For a non-empty id list the failure comes after the lookup of the existing
  ids: exactly one SELECT has been issued by then. (An empty id list is rejected before
  any statement.)
\<close>

theorem batch_unknown_action:
  assumes "act \<noteq> BatchAction_COMPLETE" and "act \<noteq> BatchAction_DELETE"
  shows "batchProcess Q env \<lparr>tasks = ids, action = act\<rparr> db q =
     (Inl (BadRequestException (if ids = [] then ''No task IDs provided'' else ''Unknown action: '' @ act)),
      db\<lparr>issued := issued db @ (if ids = [] then [] else [SELECT])\<rparr>, q)"
  using assms
  by (simp add: batchProcess_def transaction_def batch_tx_def repo_find_in_def log_stmt_def)

theorem batch_unknown_action_witness:
  "''archive'' \<noteq> BatchAction_COMPLETE \<and> ''archive'' \<noteq> BatchAction_DELETE
   \<and> batchProcess recording env0 \<lparr>tasks = [''A''], action = ''archive''\<rparr> (db_of [mk_task ''A'' PENDING None]) [] =
     (Inl (BadRequestException ''Unknown action: archive''),
      \<lparr>rows = [mk_task ''A'' PENDING None], issued = [SELECT]\<rparr>, [])"
proof -
  have a: "''archive'' \<noteq> BatchAction_COMPLETE" and b: "''archive'' \<noteq> BatchAction_DELETE"
    by (simp_all add: BatchAction_COMPLETE_def BatchAction_DELETE_def)
  show ?thesis
    using a b batch_unknown_action [OF a b, of recording env0 "[''A'']" "db_of [mk_task ''A'' PENDING None]" "[]"]
    by (simp add: db_of_def)
qed

text \<open>
  The claim as stated ("no query is issued") fails: with action \<open>archive\<close> on one id
  the call fails as described, and one SELECT has been issued.
\<close>

theorem batch_unknown_action_counterexample:
  "fst (batchProcess recording env0 \<lparr>tasks = [''A''], action = ''archive''\<rparr> (db_of []) [])
     = Inl (BadRequestException ''Unknown action: archive'')
   \<and> issued (fst (snd (batchProcess recording env0 \<lparr>tasks = [''A''], action = ''archive''\<rparr> (db_of []) [])))
     = issued (db_of []) @ [SELECT]"
  by (simp add: batchProcess_def transaction_def batch_tx_def repo_find_in_def log_stmt_def db_of_def
      BatchAction_COMPLETE_def BatchAction_DELETE_def)

section \<open>findOverdueTasks\<close>




section \<open>batchProcess: one outcome per id\<close>

lemma results_shape:
  assumes "\<And>i. g i = Success i updated \<or> g i = Success i noop \<or> g i = Success i deleted
             \<or> g i = Failure i ''not_found''"
  shows "map item_taskId (map g xs) = xs
     \<and> (\<forall>x\<in>set (map g xs).
           x = Success (item_taskId x) updated \<or> x = Success (item_taskId x) noop
           \<or> x = Success (item_taskId x) deleted \<or> x = Failure (item_taskId x) ''not_found'')"
proof -
  have t: "item_taskId (g i) = i" for i
    using assms [of i] by auto
  have "map item_taskId (map g xs) = xs"
    by (induction xs) (simp_all add: t)
  moreover have "x = Success (item_taskId x) updated \<or> x = Success (item_taskId x) noop
           \<or> x = Success (item_taskId x) deleted \<or> x = Failure (item_taskId x) ''not_found''"
    if "x \<in> set (map g xs)" for x
  proof -
    from that obtain i where "x = g i" by auto
    then show ?thesis using assms [of i] t [of i] by auto
  qed
  ultimately show ?thesis by blast
qed

lemma filter_single:
  "distinct xs \<Longrightarrow> x \<in> set xs \<Longrightarrow> (\<And>y. y \<in> set xs \<Longrightarrow> P y = (y = x)) \<Longrightarrow> filter P xs = [x]"
proof (induction xs)
  case Nil
  then show ?case by simp
next
  case (Cons a xs)
  show ?case
  proof (cases "a = x")
    case True
    have "filter P xs = []"
      using Cons.prems True by (auto simp: filter_empty_conv)
    then show ?thesis
      using Cons.prems True by simp
  next
    case False
    then have "filter P xs = [x]"
      using Cons by auto
    moreover have "\<not> P a"
      using Cons.prems(3) [of a] False by simp
    ultimately show ?thesis by simp
  qed
qed

lemma batch_results_when_some_id_exists:
  assumes act: "act = BatchAction_COMPLETE \<or> act = BatchAction_DELETE"
    and ex: "\<exists>t\<in>set (rows db). t_id t \<in> set ids"
  shows "\<exists>r. fst (batchProcess Q env \<lparr>tasks = dedupe ids, action = act\<rparr> db q) = Inr r
     \<and> length (results r) = card (set ids)
     \<and> map item_taskId (results r) = dedupe ids
     \<and> (\<forall>x\<in>set (results r).
           x = Success (item_taskId x) updated \<or> x = Success (item_taskId x) noop
           \<or> x = Success (item_taskId x) deleted \<or> x = Failure (item_taskId x) ''not_found'')"
proof -
  have "ids \<noteq> []" using ex by auto
  then have ne: "dedupe ids \<noteq> []" by (simp add: dedupe_Nil)
  have ex': "\<exists>t\<in>set (rows db). t_id t \<in> set (dedupe ids)"
    using ex by (simp add: dedupe_set)
  let ?res = "fst (batchProcess Q env \<lparr>tasks = dedupe ids, action = act\<rparr> db q)"
  have "\<exists>r. ?res = Inr r \<and> map item_taskId (results r) = dedupe ids
      \<and> (\<forall>x\<in>set (results r).
                x = Success (item_taskId x) updated \<or> x = Success (item_taskId x) noop
                \<or> x = Success (item_taskId x) deleted \<or> x = Failure (item_taskId x) ''not_found'')"
  proof -
    from act show ?thesis
    proof
      assume c: "act = BatchAction_COMPLETE"
      show ?thesis
        unfolding batchProcess_fst[OF ne] c batch_tx_complete_fst[OF ex']
        by (simp only: sum.inject simp_thms ex_simps BatchProcessResult.simps) (rule results_shape, simp)
    next
      assume c: "act = BatchAction_DELETE"
      show ?thesis
        unfolding batchProcess_fst[OF ne] c batch_tx_delete_fst[OF ex']
        by (simp only: sum.inject simp_thms ex_simps BatchProcessResult.simps) (rule results_shape, simp)
    qed
  qed
  then obtain r where r: "?res = Inr r" and m: "map item_taskId (results r) = dedupe ids"
    and k: "\<forall>x\<in>set (results r).
                x = Success (item_taskId x) updated \<or> x = Success (item_taskId x) noop
                \<or> x = Success (item_taskId x) deleted \<or> x = Failure (item_taskId x) ''not_found''"
    by blast
  have l: "length (results r) = card (set ids)"
    using arg_cong [OF m, of length] by (simp add: dedupe_length)
  from r l m k show ?thesis by blast
qed

text \<open>
  C3. The id list is what the DTO hands over, the input with duplicates removed. When
  none of the requested ids is in the table, the list of existing ids that is spread
  into \<open>id IN (..)\<close> is empty, the UPDATE (or DELETE) is rejected by the database, and
  \<open>batchProcess\<close> throws the \<open>QueryFailedError\<close>: no result is returned, and the id is
  never reported \<open>not_found\<close>. (When at least one requested id exists the results are
  as claimed: \<open>batch_results_when_some_id_exists\<close>.)
\<close>

theorem batch_no_id_found_fails:
  "dedupe [''C'', ''C''] = [''C'']
   \<and> fst (batchProcess recording env0 \<lparr>tasks = dedupe [''C'', ''C''], action = BatchAction_COMPLETE\<rparr>
            (db_of [mk_task ''A'' PENDING None]) [])
        = Inl (QueryFailedError ''syntax error at or near )'')
   \<and> fst (batchProcess recording env0 \<lparr>tasks = dedupe [''C'', ''C''], action = BatchAction_DELETE\<rparr>
            (db_of [mk_task ''A'' PENDING None]) [])
        = Inl (QueryFailedError ''syntax error at or near )'')"
proof -
  have d: "dedupe [''C'', ''C''] = [''C'']"
    by (simp add: dedupe_def)
  have ne: "[''C''] \<noteq> []"
    by simp
  have no: "\<forall>t\<in>set (rows (db_of [mk_task ''A'' PENDING None])). t_id t \<notin> set [''C'']"
    by (simp add: db_of_def mk_task_def)
  show ?thesis
    unfolding d batchProcess_fst [OF ne] batch_tx_none_found [OF no]
    by (simp add: empty_in_list_def)
qed

text \<open>
  C2. In a table with a primary key on the id, let \<open>A\<close> be the id of a pending task,
  \<open>B\<close> the id of a completed task and \<open>C\<close> the id of no task. Then \<open>complete\<close> on
  \<open>[A, B, C]\<close> returns requested 3, affected 1, notFound 1 and the results
  \<open>A\<close> updated, \<open>B\<close> noop, \<open>C\<close> not found.
\<close>

theorem batch_complete_scenario:
  assumes pk: "distinct (map t_id (rows db))"
    and a: "ta \<in> set (rows db)" "t_id ta = A" "t_status ta = PENDING"
    and b: "tb \<in> set (rows db)" "t_id tb = B" "t_status tb = COMPLETED"
    and c: "C \<notin> t_id ` set (rows db)"
  shows "fst (batchProcess Q env \<lparr>tasks = [A, B, C], action = BatchAction_COMPLETE\<rparr> db q) =
     Inr \<lparr>r_action = BatchAction_COMPLETE, requested = 3, affected = 1, notFound = 1,
          results = [Success A updated, Success B noop, Failure C ''not_found'']\<rparr>"
proof -
  define E where "E = t_id ` {t \<in> set (rows db). t_id t \<in> set [A, B, C]}"
  define U where "U = t_id ` {t \<in> set (rows db). t_id t \<in> E \<and> t_status t \<noteq> COMPLETED}"
  have inj: "inj_on t_id (set (rows db))" and dist: "distinct (rows db)"
    using pk by (simp_all add: distinct_map)
  have only: "t = t'" if "t \<in> set (rows db)" "t' \<in> set (rows db)" "t_id t = t_id t'" for t t'
    using inj that by (auto dest: inj_onD)
  have eA: "A \<in> E" unfolding E_def using a by force
  have eB: "B \<in> E" unfolding E_def using b by force
  have eC: "C \<notin> E" unfolding E_def using c by force
  have "ta \<in> {t \<in> set (rows db). t_id t \<in> E \<and> t_status t \<noteq> COMPLETED}"
    using a eA by simp
  then have "t_id ta \<in> U" unfolding U_def by (rule imageI)
  then have uA: "A \<in> U" by (simp only: a(2))
  have uB: "B \<notin> U"
  proof
    assume "B \<in> U"
    then obtain t where t: "t \<in> set (rows db)" "t_id t = B" "t_status t \<noteq> COMPLETED"
      unfolding U_def by auto
    then have "t = tb" using b only by simp
    then show False using t b by simp
  qed
  have P: "(t_id y \<in> E \<and> t_status y \<noteq> COMPLETED) = (y = ta)" if y: "y \<in> set (rows db)" for y
  proof
    assume h: "t_id y \<in> E \<and> t_status y \<noteq> COMPLETED"
    then have "t_id y = A \<or> t_id y = B \<or> t_id y = C" unfolding E_def by auto
    moreover have "t_id y \<noteq> C" using eC h by auto
    moreover have "t_id y \<noteq> B"
    proof
      assume "t_id y = B"
      then have "y = tb" using b y only by simp
      then show False using h b by simp
    qed
    ultimately have "t_id y = A" by blast
    then show "y = ta" using a y only by simp
  next
    assume "y = ta"
    then show "t_id y \<in> E \<and> t_status y \<noteq> COMPLETED" using a eA by simp
  qed
  have aff: "filter (\<lambda>t. t_id t \<in> E \<and> t_status t \<noteq> COMPLETED) (rows db) = [ta]"
    using dist a(1) P by (rule filter_single)
  have ne: "[A, B, C] \<noteq> []" by simp
  have ex: "\<exists>t\<in>set (rows db). t_id t \<in> set [A, B, C]"
    using a by auto
  have "fst (batchProcess Q env \<lparr>tasks = [A, B, C], action = BatchAction_COMPLETE\<rparr> db q) =
     Inr \<lparr>r_action = BatchAction_COMPLETE, requested = length [A, B, C],
          affected = length (filter (\<lambda>t. t_id t \<in> E \<and> t_status t \<noteq> COMPLETED) (rows db)),
          notFound = length (filter (\<lambda>i. i \<notin> E) [A, B, C]),
          results = map (\<lambda>i. if i \<notin> E then Failure i ''not_found''
                              else if i \<in> U then Success i updated else Success i noop) [A, B, C]\<rparr>"
    unfolding batchProcess_fst[OF ne] batch_tx_complete_fst[OF ex] U_def E_def ..
  then show ?thesis
    unfolding aff using eA eB eC uA uB by simp
qed

theorem batch_complete_scenario_witness:
  "fst (batchProcess recording env0 \<lparr>tasks = [''A'', ''B'', ''C''], action = BatchAction_COMPLETE\<rparr>
          (db_of [mk_task ''B'' COMPLETED None, mk_task ''A'' PENDING None]) []) =
     Inr \<lparr>r_action = BatchAction_COMPLETE, requested = 3, affected = 1, notFound = 1,
          results = [Success ''A'' updated, Success ''B'' noop, Failure ''C'' ''not_found'']\<rparr>"
proof -
  let ?db = "db_of [mk_task ''B'' COMPLETED None, mk_task ''A'' PENDING None]"
  have pk: "distinct (map t_id (rows ?db))"
    by (simp add: db_of_def mk_task_def)
  have a: "mk_task ''A'' PENDING None \<in> set (rows ?db)" "t_id (mk_task ''A'' PENDING None) = ''A''"
    "t_status (mk_task ''A'' PENDING None) = PENDING"
    by (simp_all add: db_of_def mk_task_def)
  have b: "mk_task ''B'' COMPLETED None \<in> set (rows ?db)" "t_id (mk_task ''B'' COMPLETED None) = ''B''"
    "t_status (mk_task ''B'' COMPLETED None) = COMPLETED"
    by (simp_all add: db_of_def mk_task_def)
  have c: "''C'' \<notin> t_id ` set (rows ?db)"
    by (simp add: db_of_def mk_task_def)
  show ?thesis
    by (rule batch_complete_scenario [OF pk a b c])
qed

section \<open>The overdue scan\<close>







section \<open>The overdue job at the worker\<close>

text \<open>
  C7. One pending task \<open>A\<close> is due before the cutoff. The scan leaves exactly one
  pending job, of type \<open>process-overdue-task\<close> and key \<open>overdue-A\<close>; handed to
  \<open>process\<close>, that job matches neither case of the dispatch and the worker throws
  \<open>Unknown job type: process-overdue-task\<close> instead of processing it.
\<close>

theorem overdue_job_rejected_by_worker:
  "snd (snd (checkOverdueTasks job_queue env0 (db_of [mk_task ''A'' PENDING (Some 1)]) empty_queue)) =
     \<lparr>pending = [\<lparr>job_key = Custom ''overdue-A'', job_name = ''process-overdue-task'',
                   job_data = \<lparr>d_taskId = Some ''A'', d_status = None, d_notifyUsers = None\<rparr>,
                   attemptsMade = 0\<rparr>],
      counter = 0\<rparr>
   \<and> fst (process env0
           \<lparr>job_key = Custom ''overdue-A'', job_name = ''process-overdue-task'',
            job_data = \<lparr>d_taskId = Some ''A'', d_status = None, d_notifyUsers = None\<rparr>,
            attemptsMade = 0\<rparr>
           (db_of [mk_task ''A'' PENDING (Some 1)])) =
     Inl (Error ''Unknown job type: process-overdue-task'')"
proof
  show "snd (snd (checkOverdueTasks job_queue env0 (db_of [mk_task ''A'' PENDING (Some 1)]) empty_queue)) =
     \<lparr>pending = [\<lparr>job_key = Custom ''overdue-A'', job_name = ''process-overdue-task'',
                   job_data = \<lparr>d_taskId = Some ''A'', d_status = None, d_notifyUsers = None\<rparr>,
                   attemptsMade = 0\<rparr>],
      counter = 0\<rparr>"
    unfolding checkOverdueTasks_def Let_def
    by (subst scan_loop.simps)
      (simp add: repo_find_overdue_def is_overdue_def env0_def db_of_def mk_task_def batchSize_def
        job_queue_def queue_add_def overdue_job_def no_data_def no_opts_def empty_queue_def Let_def)
next
  show "fst (process env0
           \<lparr>job_key = Custom ''overdue-A'', job_name = ''process-overdue-task'',
            job_data = \<lparr>d_taskId = Some ''A'', d_status = None, d_notifyUsers = None\<rparr>,
            attemptsMade = 0\<rparr>
           (db_of [mk_task ''A'' PENDING (Some 1)])) =
     Inl (Error ''Unknown job type: process-overdue-task'')"
    by (simp add: process_def)
qed

section \<open>The deduplication key of a status-update job\<close>

lemma toggle1_eq:
  "toggle1 = (Inr (mk_task ''A'' COMPLETED None\<lparr>t_updatedAt := 5\<rparr>),
      \<lparr>rows = [mk_task ''A'' COMPLETED None\<lparr>t_updatedAt := 5\<rparr>], issued = [SELECT, UPDATE]\<rparr>,
      \<lparr>pending = [status_job (Auto 0) ''A'' COMPLETED], counter = 1\<rparr>)"
proof -
  have f: "find (\<lambda>t. t_id t = ''A'') (rows (db_of [mk_task ''A'' PENDING None])) = Some (mk_task ''A'' PENDING None)"
    by (simp add: db_of_def mk_task_def)
  show ?thesis
    unfolding toggle1_def update_found [OF f]
    by (simp add: apply_patch_def no_patch_def env0_def mk_task_def db_of_def log_stmt_def
        job_queue_def queue_add_def update_job_def no_data_def no_opts_def empty_queue_def status_job_def)
qed

lemma toggle2_eq:
  "toggle2 = (Inr (mk_task ''A'' PENDING None\<lparr>t_updatedAt := 5\<rparr>),
      \<lparr>rows = [mk_task ''A'' PENDING None\<lparr>t_updatedAt := 5\<rparr>], issued = [SELECT, UPDATE, SELECT, UPDATE]\<rparr>,
      \<lparr>pending = [status_job (Auto 0) ''A'' COMPLETED, status_job (Auto 1) ''A'' PENDING], counter = 2\<rparr>)"
proof -
  have f: "find (\<lambda>t. t_id t = ''A'') (rows (fst (snd toggle1))) = Some (mk_task ''A'' COMPLETED None\<lparr>t_updatedAt := 5\<rparr>)"
    by (simp add: toggle1_eq mk_task_def)
  show ?thesis
    unfolding toggle2_def update_found [OF f]
    by (simp add: toggle1_eq apply_patch_def no_patch_def env0_def mk_task_def log_stmt_def
        job_queue_def queue_add_def update_job_def no_data_def no_opts_def status_job_def)
qed

lemma toggle3_eq:
  "toggle3 = (Inr (mk_task ''A'' COMPLETED None\<lparr>t_updatedAt := 5\<rparr>),
      \<lparr>rows = [mk_task ''A'' COMPLETED None\<lparr>t_updatedAt := 5\<rparr>],
        issued = [SELECT, UPDATE, SELECT, UPDATE, SELECT, UPDATE]\<rparr>,
      \<lparr>pending = [status_job (Auto 0) ''A'' COMPLETED, status_job (Auto 1) ''A'' PENDING,
                   status_job (Auto 2) ''A'' COMPLETED], counter = 3\<rparr>)"
proof -
  have f: "find (\<lambda>t. t_id t = ''A'') (rows (fst (snd toggle2))) = Some (mk_task ''A'' PENDING None\<lparr>t_updatedAt := 5\<rparr>)"
    by (simp add: toggle2_eq mk_task_def)
  show ?thesis
    unfolding toggle3_def update_found [OF f]
    by (simp add: toggle2_eq apply_patch_def no_patch_def env0_def mk_task_def log_stmt_def
        job_queue_def queue_add_def update_job_def no_data_def no_opts_def status_job_def)
qed

text \<open>
  C5. The request \<open>create\<close> enqueues carries the job id
  \<open>task-status-update:<taskId>:<status>\<close>, and enqueuing it twice leaves one pending
  job. The request \<open>update\<close> enqueues carries no job id: after a task is set to
  completed, to pending and to completed again, the queue holds two separate pending
  jobs for the same event \<open>(A, completed)\<close>.
\<close>

theorem update_enqueue_not_deduplicated:
  "o_jobId (j_opts (update_job (mk_task ''A'' COMPLETED None))) = None
   \<and> o_jobId (j_opts (create_job (mk_task ''A'' COMPLETED None))) = Some ''task-status-update:A:completed''
   \<and> pending (snd (queue_add (create_job (mk_task ''A'' COMPLETED None))
        (snd (queue_add (create_job (mk_task ''A'' COMPLETED None)) empty_queue))))
       = [status_job (Custom ''task-status-update:A:completed'') ''A'' COMPLETED]
   \<and> pending (snd (snd toggle3))
       = [status_job (Auto 0) ''A'' COMPLETED, status_job (Auto 1) ''A'' PENDING,
          status_job (Auto 2) ''A'' COMPLETED]"
  by (simp add: toggle3_eq update_job_def create_job_def no_opts_def no_data_def mk_task_def
      status_update_key_def queue_add_def empty_queue_def status_job_def)

end
